theory Spec2Isabelle
  imports Complex_Main
begin

section \<open>JavaScript values used by the web client\<close>

text \<open>
  The client (\<^verbatim>\<open>app.js\<close>) reads report fields that may be missing. A field that holds a
  number or a string is modelled as \<open>'a js\<close>: \<open>Undefined\<close> (the property is not there),
  \<open>Null\<close>, or \<open>Val v\<close>. A number is written as the rational its decimal text denotes, as a
  JSON document and the demo generator write it, and stands for the binary64 value nearest
  to it; \<open>NaN\<close> only arises from \<open>ToNumber(undefined)\<close> and is the \<open>None\<close> of \<open>ToNumber\<close>.
  Comparisons and truthiness are taken on the decimal values. Multiplication and \<^verbatim>\<open>toFixed\<close> work on the
  binary64 values (\<open>dbl\<close>, \<open>fmul\<close> below), in the finite range. Strings are lists of 8-bit
  characters; the case mapping and the white space of characters beyond ASCII are outside
  this model.
\<close>

datatype 'a js = Undefined | Null | Val 'a

text \<open>\<open>ToNumber\<close> on a numeric field: \<open>undefined\<close> is \<open>NaN\<close>, \<open>null\<close> is \<open>+0\<close>.\<close>

fun ToNumber :: "rat js \<Rightarrow> rat option" where
  "ToNumber Undefined = None"
| "ToNumber Null = Some 0"
| "ToNumber (Val x) = Some x"

text \<open>Truthiness of a numeric field and of a string field (\<open>!x\<close>, \<open>x || d\<close>, \<open>x ? a : b\<close>).\<close>

fun truthy_num :: "rat js \<Rightarrow> bool" where
  "truthy_num (Val x) = (x \<noteq> 0)"
| "truthy_num _ = False"

fun truthy_str :: "string js \<Rightarrow> bool" where
  "truthy_str (Val s) = (s \<noteq> [])"
| "truthy_str _ = False"

section \<open>String primitives\<close>

definition isWhiteSpace :: "char \<Rightarrow> bool" where
  "isWhiteSpace c = ((of_char c :: nat) \<in> {9, 10, 11, 12, 13, 32, 160})"

text \<open>\<^verbatim>\<open>String.prototype.trim\<close>: white space is removed from both ends.\<close>

definition trim :: "string \<Rightarrow> string" where
  "trim s = rev (dropWhile isWhiteSpace (rev (dropWhile isWhiteSpace s)))"

text \<open>\<^verbatim>\<open>s.endsWith(suffix)\<close>.\<close>

definition endsWith :: "string \<Rightarrow> string \<Rightarrow> bool" where
  "endsWith s suffix =
     (length suffix \<le> length s \<and> drop (length s - length suffix) s = suffix)"

text \<open>\<^verbatim>\<open>s.slice(0, -n)\<close>: the end index is \<open>max (length s - n) 0\<close>; \<open>-0\<close> is index \<open>0\<close>.\<close>

definition slice_end :: "string \<Rightarrow> nat \<Rightarrow> string" where
  "slice_end s n = (if n = 0 then [] else take (length s - n) s)"

section \<open>normalizeApiUrl\<close>

text \<open>
  \<^verbatim>\<open>
  function normalizeApiUrl(url) {
      if (!url) return '';
      url = url.trim();
      const suffixesToRemove = ['/api/health', '/api/analyze', '/api/filings', '/api/', '/api'];
      for (const suffix of suffixesToRemove) {
          if (url.endsWith(suffix)) { url = url.slice(0, -suffix.length); }
      }
      while (url.endsWith('/')) { url = url.slice(0, -1); }
      return url;
  }
  \<close>
\<close>

definition suffixesToRemove :: "string list" where
  "suffixesToRemove = [''/api/health'', ''/api/analyze'', ''/api/filings'', ''/api/'', ''/api'']"

text \<open>One iteration of the \<^verbatim>\<open>for\<close> loop.\<close>

definition remove_suffix :: "string \<Rightarrow> string \<Rightarrow> string" where
  "remove_suffix url suffix =
     (if endsWith url suffix then slice_end url (length suffix) else url)"

text \<open>The \<^verbatim>\<open>while\<close> loop; every iteration shortens the string.\<close>

function strip_trailing_slashes :: "string \<Rightarrow> string" where
  "strip_trailing_slashes url =
     (if endsWith url ''/'' then strip_trailing_slashes (slice_end url 1) else url)"
  by pat_completeness auto
termination
  by (relation "measure length") (auto simp: endsWith_def slice_end_def)

declare strip_trailing_slashes.simps [simp del]

definition normalizeApiUrl :: "string js \<Rightarrow> string" where
  "normalizeApiUrl url =
     (if \<not> truthy_str url then []
      else case url of
        Val u \<Rightarrow> strip_trailing_slashes (foldl remove_suffix (trim u) suffixesToRemove)
      | _ \<Rightarrow> [])"

section \<open>Numbers in templates\<close>

text \<open>Relational operators against a numeric literal: a \<open>NaN\<close> operand makes them false.\<close>

definition js_gt :: "rat js \<Rightarrow> rat \<Rightarrow> bool" where
  "js_gt x c = (case ToNumber x of None \<Rightarrow> False | Some v \<Rightarrow> v > c)"

definition js_lt :: "rat js \<Rightarrow> rat \<Rightarrow> bool" where
  "js_lt x c = (case ToNumber x of None \<Rightarrow> False | Some v \<Rightarrow> v < c)"

definition js_ge :: "rat js \<Rightarrow> rat \<Rightarrow> bool" where
  "js_ge x c = (case ToNumber x of None \<Rightarrow> False | Some v \<Rightarrow> v \<ge> c)"

definition js_le :: "rat js \<Rightarrow> rat \<Rightarrow> bool" where
  "js_le x c = (case ToNumber x of None \<Rightarrow> False | Some v \<Rightarrow> v \<le> c)"

text \<open>\<^verbatim>\<open>x || 0\<close> and \<^verbatim>\<open>s || d\<close>.\<close>

definition num_or_zero :: "rat js \<Rightarrow> rat" where
  "num_or_zero x = (case x of Val v \<Rightarrow> (if v \<noteq> 0 then v else 0) | _ \<Rightarrow> 0)"

definition str_or :: "string js \<Rightarrow> string \<Rightarrow> string" where
  "str_or s d = (case s of Val v \<Rightarrow> (if v \<noteq> [] then v else d) | _ \<Rightarrow> d)"

text \<open>
  IEEE 754 binary64, round to nearest, ties to even: \<open>dbl x\<close> is the value of the double
  nearest to \<open>x\<close>, with 53 significant bits and the smallest exponent \<open>-1074\<close>; magnitudes
  of \<open>2^1024\<close> and more (\<^verbatim>\<open>Infinity\<close>) are outside this model. \<open>fmul\<close> is the product of two
  numbers as JavaScript computes it.
\<close>

function bit_length :: "int \<Rightarrow> nat" where
  "bit_length k = (if k \<le> 0 then 0 else Suc (bit_length (k div 2)))"
  by pat_completeness auto
termination
  by (relation "measure nat") auto

declare bit_length.simps [simp del]

definition pow2 :: "int \<Rightarrow> rat" where
  "pow2 e = (if e \<ge> 0 then 2 ^ nat e else 1 / 2 ^ nat (- e))"

text \<open>For \<open>q > 0\<close>, the \<open>k\<close> with \<open>2^k \<le> q < 2^(k+1)\<close>.\<close>

definition floor_log2 :: "rat \<Rightarrow> int" where
  "floor_log2 q =
     (let (a, b) = quotient_of q;
          k = int (bit_length a) - int (bit_length b)
      in if pow2 k \<le> q then k else k - 1)"

definition round_half_even :: "rat \<Rightarrow> int" where
  "round_half_even q =
     (let f = \<lfloor>q\<rfloor>; d = q - of_int f
      in if d < 1 / 2 then f else if d > 1 / 2 then f + 1 else if even f then f else f + 1)"

definition dbl :: "rat \<Rightarrow> rat" where
  "dbl x =
     (if x = 0 then 0
      else let a = \<bar>x\<bar>;
               e = max (floor_log2 a - 52) (- 1074);
               m = round_half_even (a / pow2 e)
           in sgn x * of_int m * pow2 e)"

definition fmul :: "rat \<Rightarrow> rat \<Rightarrow> rat" where
  "fmul x y = dbl (dbl x * dbl y)"

definition digit_char :: "int \<Rightarrow> char" where
  "digit_char d = ''0123456789'' ! nat (d mod 10)"

function int_digits :: "int \<Rightarrow> string" where
  "int_digits n =
     (if n < 10 then [digit_char n] else int_digits (n div 10) @ [digit_char (n mod 10)])"
  by pat_completeness auto
termination
  by (relation "measure nat") auto

declare int_digits.simps [simp del]

text \<open>
  \<^verbatim>\<open>Number.prototype.toFixed(f)\<close> for magnitudes below \<open>10^21\<close>: the sign of the double is split
  off, its exact magnitude is rounded to the nearest multiple of \<open>10^-f\<close> (the larger one on
  a tie), and the digits are padded with zeros to at least \<open>f + 1\<close> places.
\<close>

definition toFixed :: "rat \<Rightarrow> nat \<Rightarrow> string" where
  "toFixed x f =
     (let v = dbl x;
          n = \<lfloor>\<bar>v\<bar> * 10 ^ f + 1 / 2\<rfloor>;
          m = int_digits n;
          m' = (if f = 0 then m
                else let z = replicate (f + 1 - length m) CHR ''0'' @ m
                     in take (length z - f) z @ ''.'' @ drop (length z - f) z)
      in (if v < 0 then ''-'' else []) @ m')"

text \<open>\<^verbatim>\<open>x?.toFixed(f)\<close> on a field: \<open>undefined\<close> when the field is \<open>undefined\<close> or \<open>null\<close>.\<close>

definition toFixed_opt :: "rat js \<Rightarrow> nat \<Rightarrow> string js" where
  "toFixed_opt x f = (case x of Val v \<Rightarrow> Val (toFixed v f) | _ \<Rightarrow> Undefined)"

text \<open>\<^verbatim>\<open>(x * 100).toFixed(0)\<close> on a field: \<open>NaN\<close> prints as \<^verbatim>\<open>NaN\<close>.\<close>

definition percent_text :: "rat js \<Rightarrow> string" where
  "percent_text x = (case ToNumber x of None \<Rightarrow> ''NaN'' | Some v \<Rightarrow> toFixed (fmul v 100) 0)"

text \<open>
  A value about to be substituted into a template literal. A number is kept as the number
  (JavaScript prints it with \<^verbatim>\<open>Number::toString\<close>); text is already a string.
\<close>

datatype cell = NumV rat | StrV string

text \<open>\<^verbatim>\<open>x || 0\<close>, \<^verbatim>\<open>x || ''\<close> and a bare \<^verbatim>\<open>${x}\<close> as cells.\<close>

definition num_or_zero_cell :: "rat js \<Rightarrow> cell" where
  "num_or_zero_cell x = (if truthy_num x then (case x of Val v \<Rightarrow> NumV v | _ \<Rightarrow> NumV 0) else NumV 0)"

definition num_or_empty_cell :: "rat js \<Rightarrow> cell" where
  "num_or_empty_cell x = (if truthy_num x then (case x of Val v \<Rightarrow> NumV v | _ \<Rightarrow> StrV []) else StrV [])"

definition raw_num_cell :: "rat js \<Rightarrow> cell" where
  "raw_num_cell x = (case x of Val v \<Rightarrow> NumV v | Undefined \<Rightarrow> StrV ''undefined'' | Null \<Rightarrow> StrV ''null'')"

section \<open>Utility functions\<close>

definition toUpperCase_char :: "char \<Rightarrow> char" where
  "toUpperCase_char c =
     (let n = (of_char c :: nat) in if 97 \<le> n \<and> n \<le> 122 then char_of (n - 32) else c)"

definition toUpperCase :: "string \<Rightarrow> string" where
  "toUpperCase s = map toUpperCase_char s"

fun startsWith :: "string \<Rightarrow> string \<Rightarrow> bool" where
  "startsWith s [] = True"
| "startsWith [] (p # ps) = False"
| "startsWith (c # cs) (p # ps) = (c = p \<and> startsWith cs ps)"

text \<open>\<^verbatim>\<open>s.includes(sub)\<close>: \<open>sub\<close> occurs in \<open>s\<close> as a contiguous run.\<close>

fun includes_str :: "string \<Rightarrow> string \<Rightarrow> bool" where
  "includes_str [] sub = (sub = [])"
| "includes_str (c # cs) sub = (startsWith (c # cs) sub \<or> includes_str cs sub)"

text \<open>
  \<^verbatim>\<open>
  function escapeHtml(str) {
      if (!str) return '';
      const div = document.createElement('div');
      div.textContent = str;
      return div.innerHTML;
  }
  \<close>
  Serialising a text node escapes \<open>&\<close>, \<open><\<close>, \<open>>\<close> and the no-break space.
\<close>

definition escape_char :: "char \<Rightarrow> string" where
  "escape_char c =
     (if c = CHR ''&'' then ''&amp;''
      else if c = CHR ''<'' then ''&lt;''
      else if c = CHR ''>'' then ''&gt;''
      else if (of_char c :: nat) = 160 then ''&nbsp;''
      else [c])"

definition escapeHtml :: "string js \<Rightarrow> string" where
  "escapeHtml str = (if \<not> truthy_str str then [] else concat (map escape_char (str_or str [])))"

text \<open>
  \<^verbatim>\<open>
  function getRiskClass(level) {
      const l = (level || '').toUpperCase();
      if (l === 'LOW') return 'risk-low';
      if (l === 'MODERATE') return 'risk-moderate';
      if (l === 'ELEVATED') return 'risk-elevated';
      if (l === 'HIGH') return 'risk-high';
      if (l === 'CRITICAL') return 'risk-critical';
      return '';
  }
  \<close>
  \<^verbatim>\<open>getBgClass\<close> is the same with the prefix \<^verbatim>\<open>bg-\<close>.
\<close>

definition getRiskClass :: "string js \<Rightarrow> string" where
  "getRiskClass level =
     (let l = toUpperCase (str_or level []) in
      if l = ''LOW'' then ''risk-low''
      else if l = ''MODERATE'' then ''risk-moderate''
      else if l = ''ELEVATED'' then ''risk-elevated''
      else if l = ''HIGH'' then ''risk-high''
      else if l = ''CRITICAL'' then ''risk-critical''
      else [])"

definition getBgClass :: "string js \<Rightarrow> string" where
  "getBgClass level =
     (let l = toUpperCase (str_or level []) in
      if l = ''LOW'' then ''bg-low''
      else if l = ''MODERATE'' then ''bg-moderate''
      else if l = ''ELEVATED'' then ''bg-elevated''
      else if l = ''HIGH'' then ''bg-high''
      else if l = ''CRITICAL'' then ''bg-critical''
      else [])"

section \<open>The analysis report\<close>

text \<open>
  The JSON shape the client receives from the server, and that \<^verbatim>\<open>generateDemoData\<close>
  builds. An object that may be missing is an \<open>option\<close>.
\<close>

record company_info =
  name :: "string js"
  ticker :: "string js"
  cik :: "string js"
  sic :: "string js"

record risk_info =
  score :: "rat js"
  level :: "string js"
  summary :: "string js"

record beneish_result =
  m_score :: "rat js"
  dsri :: "rat js"
  gmi :: "rat js"
  aqi :: "rat js"
  sgi :: "rat js"

record altman_result =
  z_score :: "rat js"
  zone :: "string js"

record piotroski_result =
  f_score :: "rat js"

record fraud_triangle_result =
  risk_score :: "rat js"
  risk_level :: "string js"
  pressure :: "rat js"
  opportunity :: "rat js"
  rationalization :: "rat js"

record benford_result =
  deviation :: "rat js"
  suspicious :: "bool js"

record model_results =
  beneish :: "beneish_result option"
  altman :: "altman_result option"
  piotroski :: "piotroski_result option"
  fraud_triangle :: "fraud_triangle_result option"
  benford :: "benford_result option"

record filing =
  accession :: "string js"
  filed_date :: "string js"
  form_type :: "string js"
  revenue :: "rat js"
  net_income :: "rat js"
  risk_level :: "string js"

record trend_info =
  revenue_trend :: "string js"
  income_trend :: "string js"
  cash_flow_trend :: "string js"
  debt_trend :: "string js"

record red_flag =
  type :: "string js"
  title :: "string js"
  description :: "string js"
  message :: "string js"

record report =
  ticker :: "string js"
  company :: "company_info option"
  filings_analyzed :: "rat js"
  overall_risk :: "risk_info option"
  composite_risk :: "risk_info option"
  models :: "model_results option"
  filings :: "filing list option"
  trends :: "trend_info option"
  red_flags :: "red_flag list option"
  recommendation :: "string js"


section \<open>Application state\<close>

text \<open>
  The globals of \<^verbatim>\<open>app.js\<close>, and the \<^verbatim>\<open>localStorage\<close> entry \<^verbatim>\<open>analysisHistory\<close>, held as
  the list its JSON text encodes. The clock read by \<^verbatim>\<open>new Date().toISOString()\<close> is an
  explicit argument. The DOM is not part of the state. The field \<^verbatim>\<open>identifier\<close> of a
  history entry is \<open>entry_identifier\<close>.
\<close>

record history_entry =
  entry_identifier :: string
  company :: string
  timestamp :: string
  riskLevel :: string

record app_state =
  apiBaseUrl :: string
  currentData :: "report option"
  isConnected :: bool
  isDemoMode :: bool
  isDarkMode :: bool
  requestTimeout :: rat
  analysisHistory :: "history_entry list"
  stored_analysisHistory :: "history_entry list option"

definition initial_state :: app_state where
  "initial_state =
     \<lparr> apiBaseUrl = [], currentData = None, isConnected = False, isDemoMode = False,
       isDarkMode = False, requestTimeout = 30, analysisHistory = [],
       stored_analysisHistory = None \<rparr>"

text \<open>
  What a JavaScript function can read without being passed it: the globals, the clock
  (\<^verbatim>\<open>Date\<close>) and the random source (\<^verbatim>\<open>Math.random\<close>). The demo generator is given them as
  the argument \<open>env\<close>, so that what it reads of them shows in its definition.
\<close>

record ambient =
  globals :: app_state
  clock :: string
  math_random :: rat

definition initial_ambient :: ambient where
  "initial_ambient =
     \<lparr> globals = initial_state, clock = ''2001-12-02T00:00:00.000Z'', math_random = 0 \<rparr>"

section \<open>The demo data generator\<close>

text \<open>
  \<^verbatim>\<open>
  function generateDemoData(identifier) {
      const isEnron = identifier.toUpperCase().includes('ENRON') || identifier === '0001024401';
      return { ticker: identifier, company: {...}, filings_analyzed: 8, overall_risk: {...},
               models: {...}, filings: [...], trends: {...}, red_flags: isEnron ? [...] : [],
               recommendation: ... };
  }
  \<close>
  Every field of the returned object is one of two constants, chosen by \<open>isEnron\<close>, or the
  identifier itself; the body reads no global, no clock and no random number, so \<open>env\<close>
  occurs on the left only.
\<close>

definition isEnron :: "string \<Rightarrow> bool" where
  "isEnron identifier =
     (includes_str (toUpperCase identifier) ''ENRON'' \<or> identifier = ''0001024401'')"

definition demo_company :: "string \<Rightarrow> company_info" where
  "demo_company identifier =
     \<lparr> name = (if isEnron identifier then Val ''Enron Corporation'' else Val (identifier @ '' Inc.'')),
       company_info.ticker = (if isEnron identifier then Val ''ENE'' else Val identifier),
       cik = (if isEnron identifier then Val ''0001024401'' else Val ''0000000000''),
       sic = Val ''4911'' \<rparr>"

definition demo_overall_risk :: "string \<Rightarrow> risk_info" where
  "demo_overall_risk identifier =
     \<lparr> score = (if isEnron identifier then Val 0.85 else Val 0.25),
       level = (if isEnron identifier then Val ''CRITICAL'' else Val ''LOW''),
       summary = Undefined \<rparr>"

definition demo_models :: "string \<Rightarrow> model_results" where
  "demo_models identifier =
     \<lparr> beneish = Some
         \<lparr> m_score = (if isEnron identifier then Val (-1.42) else Val (-2.85)),
           dsri = (if isEnron identifier then Val 1.35 else Val 1.02),
           gmi = (if isEnron identifier then Val 1.15 else Val 0.98),
           aqi = (if isEnron identifier then Val 1.28 else Val 1.01),
           sgi = (if isEnron identifier then Val 1.45 else Val 1.08) \<rparr>,
       altman = Some
         \<lparr> z_score = (if isEnron identifier then Val 1.25 else Val 3.45),
           zone = (if isEnron identifier then Val ''Distress'' else Val ''Safe'') \<rparr>,
       piotroski = Some
         \<lparr> f_score = (if isEnron identifier then Val 2 else Val 7) \<rparr>,
       fraud_triangle = Some
         \<lparr> risk_score = (if isEnron identifier then Val 0.78 else Val 0.22),
           fraud_triangle_result.risk_level = (if isEnron identifier then Val ''HIGH'' else Val ''LOW''),
           pressure = (if isEnron identifier then Val 0.82 else Val 0.25),
           opportunity = (if isEnron identifier then Val 0.75 else Val 0.20),
           rationalization = (if isEnron identifier then Val 0.68 else Val 0.18) \<rparr>,
       benford = Some
         \<lparr> deviation = (if isEnron identifier then Val 8.5 else Val 2.1),
           suspicious = Val (isEnron identifier) \<rparr> \<rparr>"

definition demo_filings :: "string \<Rightarrow> filing list" where
  "demo_filings identifier =
     [ \<lparr> accession = Val ''0001024401-00-000123'', filed_date = Val ''2000-03-15'',
         form_type = Val ''10-K'',
         revenue = (if isEnron identifier then Val 100789000000 else Val 50000000000),
         net_income = (if isEnron identifier then Val 979000000 else Val 5000000000),
         risk_level = (if isEnron identifier then Val ''HIGH'' else Val ''LOW'') \<rparr>,
       \<lparr> accession = Val ''0001024401-99-000456'', filed_date = Val ''1999-03-15'',
         form_type = Val ''10-K'',
         revenue = (if isEnron identifier then Val 40112000000 else Val 45000000000),
         net_income = (if isEnron identifier then Val 893000000 else Val 4500000000),
         risk_level = (if isEnron identifier then Val ''MODERATE'' else Val ''LOW'') \<rparr> ]"

definition demo_trends :: "string \<Rightarrow> trend_info" where
  "demo_trends identifier =
     \<lparr> revenue_trend = (if isEnron identifier then Val ''IMPROVING'' else Val ''STABLE''),
       income_trend = (if isEnron identifier then Val ''DECLINING'' else Val ''IMPROVING''),
       cash_flow_trend = (if isEnron identifier then Val ''DECLINING'' else Val ''STABLE''),
       debt_trend = (if isEnron identifier then Val ''DECLINING'' else Val ''IMPROVING'') \<rparr>"

definition apostrophe :: string where
  "apostrophe = [CHR 0x27]"

definition enron_red_flags :: "red_flag list" where
  "enron_red_flags =
     [ \<lparr> type = Val ''EARNINGS_MANIPULATION'', title = Val ''Beneish M-Score Above Threshold'',
         description = Val ''M-Score of -1.42 exceeds the -2.22 threshold, indicating likely earnings manipulation.'',
         message = Undefined \<rparr>,
       \<lparr> type = Val ''BANKRUPTCY_RISK'', title = Val ''Altman Z-Score in Distress Zone'',
         description = Val ''Z-Score of 1.25 indicates high probability of bankruptcy within 2 years.'',
         message = Undefined \<rparr>,
       \<lparr> type = Val ''WEAK_FUNDAMENTALS'', title = Val ''Low Piotroski F-Score'',
         description = Val ''F-Score of 2 indicates weak financial fundamentals.'',
         message = Undefined \<rparr>,
       \<lparr> type = Val ''FRAUD_TRIANGLE'', title = Val ''High Fraud Triangle Risk'',
         description = Val ''Multiple fraud risk factors detected: high pressure, opportunity, and rationalization scores.'',
         message = Undefined \<rparr>,
       \<lparr> type = Val ''BENFORD_ANOMALY'', title = Val (''Benford'' @ apostrophe @ ''s Law Deviation''),
         description = Val ''Significant deviation (8.5%) from expected digit distribution in financial figures.'',
         message = Undefined \<rparr> ]"

definition demo_recommendation :: "string \<Rightarrow> string" where
  "demo_recommendation identifier =
     (if isEnron identifier
      then ''CRITICAL RISK: Multiple fraud indicators detected. This analysis reflects Enron''
           @ apostrophe
           @ ''s actual financial condition prior to its 2001 collapse. The company filed for bankruptcy in December 2001.''
      else ''LOW RISK: No significant fraud indicators detected. Financial statements appear consistent with expected patterns.'')"

definition generateDemoData :: "ambient \<Rightarrow> string \<Rightarrow> report" where
  "generateDemoData env identifier =
     \<lparr> ticker = Val identifier,
       report.company = Some (demo_company identifier),
       filings_analyzed = Val 8,
       overall_risk = Some (demo_overall_risk identifier),
       composite_risk = None,
       models = Some (demo_models identifier),
       filings = Some (demo_filings identifier),
       trends = Some (demo_trends identifier),
       red_flags = Some (if isEnron identifier then enron_red_flags else []),
       recommendation = Val (demo_recommendation identifier) \<rparr>"


section \<open>Display functions\<close>

text \<open>
  The display functions fill HTML templates. The model returns the values substituted into
  the holes of each template, in a record per card; the fixed markup around them is left
  out.
\<close>

record score_card =
  value_class :: string
  value_text :: cell
  score_label :: string
  indicator_class :: string
  indicator_text :: string
  footnote :: "string option"

text \<open>
  \<^verbatim>\<open>
  <div class="score-value ${b.m_score > -2.22 ? 'risk-high' : 'risk-low'}">${b.m_score?.toFixed(2) || 'N/A'}</div>
  <div class="score-label">Beneish M-Score</div>
  <span class="score-indicator ${b.m_score > -2.22 ? 'bg-high' : 'bg-low'}">
      ${b.m_score > -2.22 ? 'Likely Manipulator' : 'Unlikely Manipulator'}
  </span>
  <p ...>Threshold: -2.22</p>
  \<close>
\<close>

definition beneish_card :: "beneish_result \<Rightarrow> score_card" where
  "beneish_card b =
     \<lparr> value_class = (if js_gt (m_score b) (-2.22) then ''risk-high'' else ''risk-low''),
       value_text = StrV (str_or (toFixed_opt (m_score b) 2) ''N/A''),
       score_label = ''Beneish M-Score'',
       indicator_class = (if js_gt (m_score b) (-2.22) then ''bg-high'' else ''bg-low''),
       indicator_text =
         (if js_gt (m_score b) (-2.22) then ''Likely Manipulator'' else ''Unlikely Manipulator''),
       footnote = Some ''Threshold: -2.22'' \<rparr>"

text \<open>
  \<^verbatim>\<open>
  const zone = a.z_score > 2.99 ? 'Safe' : (a.z_score < 1.81 ? 'Distress' : 'Gray');
  <div class="score-value ${a.z_score < 1.81 ? 'risk-high' : (a.z_score > 2.99 ? 'risk-low' : 'risk-moderate')}">${a.z_score?.toFixed(2) || 'N/A'}</div>
  <div class="score-label">Altman Z-Score</div>
  <span class="score-indicator ${a.z_score < 1.81 ? 'bg-high' : (a.z_score > 2.99 ? 'bg-low' : 'bg-moderate')}">${zone} Zone</span>
  \<close>
\<close>

definition altman_zone :: "rat js \<Rightarrow> string" where
  "altman_zone z = (if js_gt z 2.99 then ''Safe'' else (if js_lt z 1.81 then ''Distress'' else ''Gray''))"

definition altman_card :: "altman_result \<Rightarrow> score_card" where
  "altman_card a =
     \<lparr> value_class =
         (if js_lt (z_score a) 1.81 then ''risk-high''
          else (if js_gt (z_score a) 2.99 then ''risk-low'' else ''risk-moderate'')),
       value_text = StrV (str_or (toFixed_opt (z_score a) 2) ''N/A''),
       score_label = ''Altman Z-Score'',
       indicator_class =
         (if js_lt (z_score a) 1.81 then ''bg-high''
          else (if js_gt (z_score a) 2.99 then ''bg-low'' else ''bg-moderate'')),
       indicator_text = altman_zone (z_score a) @ '' Zone'',
       footnote = None \<rparr>"

text \<open>
  \<^verbatim>\<open>
  <div class="score-value ${p.f_score >= 7 ? 'risk-low' : (p.f_score <= 3 ? 'risk-high' : 'risk-moderate')}">${p.f_score || 0}</div>
  <div class="score-label">Piotroski F-Score</div>
  <span class="score-indicator ${p.f_score >= 7 ? 'bg-low' : (p.f_score <= 3 ? 'bg-high' : 'bg-moderate')}">
      ${p.f_score >= 7 ? 'Strong' : (p.f_score <= 3 ? 'Weak' : 'Moderate')}
  </span>
  <p ...>Scale: 0-9</p>
  \<close>
\<close>

definition piotroski_rating :: "rat js \<Rightarrow> string" where
  "piotroski_rating f = (if js_ge f 7 then ''Strong'' else (if js_le f 3 then ''Weak'' else ''Moderate''))"

definition piotroski_card :: "piotroski_result \<Rightarrow> score_card" where
  "piotroski_card p =
     \<lparr> value_class =
         (if js_ge (f_score p) 7 then ''risk-low''
          else (if js_le (f_score p) 3 then ''risk-high'' else ''risk-moderate'')),
       value_text = num_or_zero_cell (f_score p),
       score_label = ''Piotroski F-Score'',
       indicator_class =
         (if js_ge (f_score p) 7 then ''bg-low''
          else (if js_le (f_score p) 3 then ''bg-high'' else ''bg-moderate'')),
       indicator_text = piotroski_rating (f_score p),
       footnote = Some ''Scale: 0-9'' \<rparr>"

text \<open>
  \<^verbatim>\<open>
  <div class="score-value ${ft.risk_score > 0.6 ? 'risk-high' : (ft.risk_score > 0.3 ? 'risk-moderate' : 'risk-low')}">${(ft.risk_score * 100).toFixed(0)}%</div>
  <div class="score-label">Fraud Triangle Risk</div>
  <span class="score-indicator ${ft.risk_score > 0.6 ? 'bg-high' : (ft.risk_score > 0.3 ? 'bg-moderate' : 'bg-low')}">
      ${ft.risk_level || 'Unknown'}
  </span>
  \<close>
\<close>

definition fraud_triangle_card :: "fraud_triangle_result \<Rightarrow> score_card" where
  "fraud_triangle_card ft =
     \<lparr> value_class =
         (if js_gt (risk_score ft) 0.6 then ''risk-high''
          else (if js_gt (risk_score ft) 0.3 then ''risk-moderate'' else ''risk-low'')),
       value_text = StrV (percent_text (risk_score ft) @ ''%''),
       score_label = ''Fraud Triangle Risk'',
       indicator_class =
         (if js_gt (risk_score ft) 0.6 then ''bg-high''
          else (if js_gt (risk_score ft) 0.3 then ''bg-moderate'' else ''bg-low'')),
       indicator_text = str_or (fraud_triangle_result.risk_level ft) ''Unknown'',
       footnote = None \<rparr>"

text \<open>
  \<^verbatim>\<open>
  <div class="score-value ${bf.suspicious ? 'risk-high' : 'risk-low'}">${bf.deviation?.toFixed(2) || 'N/A'}%</div>
  <div class="score-label">Benford's Law Deviation</div>
  <span class="score-indicator ${bf.suspicious ? 'bg-high' : 'bg-low'}">
      ${bf.suspicious ? 'Anomaly Detected' : 'Normal'}
  </span>
  \<close>
\<close>

fun truthy_bool :: "bool js \<Rightarrow> bool" where
  "truthy_bool (Val b) = b"
| "truthy_bool _ = False"

definition benford_card :: "benford_result \<Rightarrow> score_card" where
  "benford_card bf =
     \<lparr> value_class = (if truthy_bool (suspicious bf) then ''risk-high'' else ''risk-low''),
       value_text = StrV (str_or (toFixed_opt (deviation bf) 2) ''N/A'' @ ''%''),
       score_label = ''Benford'' @ apostrophe @ ''s Law Deviation'',
       indicator_class = (if truthy_bool (suspicious bf) then ''bg-high'' else ''bg-low''),
       indicator_text = (if truthy_bool (suspicious bf) then ''Anomaly Detected'' else ''Normal''),
       footnote = None \<rparr>"

text \<open>
  \<^verbatim>\<open>displayModels\<close>: \<^verbatim>\<open>const models = data.models || {}\<close>, then one card for every model
  that is there, in this order.
\<close>

definition card_if :: "'a option \<Rightarrow> ('a \<Rightarrow> score_card) \<Rightarrow> score_card list" where
  "card_if m f = (case m of None \<Rightarrow> [] | Some r \<Rightarrow> [f r])"

definition no_models :: model_results where
  "no_models = \<lparr> beneish = None, altman = None, piotroski = None, fraud_triangle = None,
                  benford = None \<rparr>"

definition displayModels :: "report \<Rightarrow> score_card list" where
  "displayModels data =
     (let ms = (case models data of None \<Rightarrow> no_models | Some m \<Rightarrow> m) in
      card_if (beneish ms) beneish_card
      @ card_if (altman ms) altman_card
      @ card_if (piotroski ms) piotroski_card
      @ card_if (fraud_triangle ms) fraud_triangle_card
      @ card_if (benford ms) benford_card)"

text \<open>
  \<^verbatim>\<open>
  function displayOverview(data) {
      const risk = data.overall_risk || data.composite_risk || {};
      const riskLevel = risk.level || 'Unknown';
      const riskScore = risk.score || 0;
      ... ${getRiskClass(riskLevel)} ... ${(riskScore * 100).toFixed(0)}% ...
      ... ${getBgClass(riskLevel)} ... ${riskLevel} ...
      ... ${data.filings_analyzed || 0} ...
      ... ${getRiskClass(data.red_flags?.length > 3 ? 'HIGH' : 'LOW')} ... ${data.red_flags?.length || 0} ...
      ... ${risk.summary || 'Analysis complete. ...'} ...
      ${data.recommendation ? `... ${escapeHtml(data.recommendation)} ...` : ''}
  }
  \<close>
\<close>

record overview =
  risk_class :: string
  risk_score_text :: string
  risk_indicator_class :: string
  risk_indicator_text :: string
  filings_analyzed_text :: cell
  red_flags_class :: string
  red_flags_text :: cell
  summary_text :: string
  recommendation_text :: "string option"

definition no_risk :: risk_info where
  "no_risk = \<lparr> score = Undefined, level = Undefined, summary = Undefined \<rparr>"

definition overview_risk :: "report \<Rightarrow> risk_info" where
  "overview_risk data =
     (case overall_risk data of Some r \<Rightarrow> r
      | None \<Rightarrow> (case composite_risk data of Some r \<Rightarrow> r | None \<Rightarrow> no_risk))"

definition red_flags_length :: "report \<Rightarrow> nat option" where
  "red_flags_length data = map_option length (red_flags data)"

definition displayOverview :: "report \<Rightarrow> overview" where
  "displayOverview data =
     (let risk = overview_risk data;
          riskLevel = str_or (level risk) ''Unknown'';
          riskScore = num_or_zero (score risk)
      in \<lparr> risk_class = getRiskClass (Val riskLevel),
           risk_score_text = toFixed (fmul riskScore 100) 0 @ ''%'',
           risk_indicator_class = getBgClass (Val riskLevel),
           risk_indicator_text = riskLevel,
           filings_analyzed_text = num_or_zero_cell (filings_analyzed data),
           red_flags_class =
             getRiskClass (case red_flags_length data of
                             None \<Rightarrow> Val ''LOW''
                           | Some n \<Rightarrow> (if n > 3 then Val ''HIGH'' else Val ''LOW'')),
           red_flags_text =
             NumV (case red_flags_length data of None \<Rightarrow> 0 | Some n \<Rightarrow> of_nat n),
           summary_text =
             str_or (summary risk)
               ''Analysis complete. Review individual model scores and red flags for details.'',
           recommendation_text =
             (if truthy_str (recommendation data) then Some (escapeHtml (recommendation data))
              else None) \<rparr>)"

section \<open>Export functions\<close>

text \<open>
  \<^verbatim>\<open>
  function convertToCSV(data) {
      const rows = [['Metric', 'Value']];
      rows.push(['Ticker', data.ticker || '']);
      rows.push(['Company', data.company?.name || '']);
      rows.push(['Filings Analyzed', data.filings_analyzed || 0]);
      rows.push(['Overall Risk Score', data.overall_risk?.score || '']);
      rows.push(['Risk Level', data.overall_risk?.level || '']);
      if (data.models?.beneish) { rows.push(['Beneish M-Score', data.models.beneish.m_score || '']); }
      if (data.models?.altman) { rows.push(['Altman Z-Score', data.models.altman.z_score || '']); }
      if (data.models?.piotroski) { rows.push(['Piotroski F-Score', data.models.piotroski.f_score || '']); }
      rows.push(['Red Flags', data.red_flags?.length || 0]);
      return rows.map(r => r.map(c => `"${c}"`).join(',')).join('\n');
  }
  \<close>
  \<open>csv_rows\<close> is the array \<^verbatim>\<open>rows\<close>; \<open>convertToCSV\<close> joins it, given how JavaScript prints
  a number.
\<close>

definition opt_field :: "'a option \<Rightarrow> ('a \<Rightarrow> 'b js) \<Rightarrow> 'b js" where
  "opt_field obj f = (case obj of None \<Rightarrow> Undefined | Some r \<Rightarrow> f r)"

definition opt_model :: "report \<Rightarrow> (model_results \<Rightarrow> 'a option) \<Rightarrow> 'a option" where
  "opt_model data f = (case models data of None \<Rightarrow> None | Some m \<Rightarrow> f m)"

definition row_if :: "'a option \<Rightarrow> ('a \<Rightarrow> cell list) \<Rightarrow> cell list list" where
  "row_if m f = (case m of None \<Rightarrow> [] | Some r \<Rightarrow> [f r])"

definition csv_rows :: "report \<Rightarrow> cell list list" where
  "csv_rows data =
     [ [StrV ''Metric'', StrV ''Value''],
       [StrV ''Ticker'', StrV (str_or (ticker data) [])],
       [StrV ''Company'', StrV (str_or (opt_field (report.company data) name) [])],
       [StrV ''Filings Analyzed'', num_or_zero_cell (filings_analyzed data)],
       [StrV ''Overall Risk Score'', num_or_empty_cell (opt_field (overall_risk data) score)],
       [StrV ''Risk Level'', StrV (str_or (opt_field (overall_risk data) level) [])] ]
     @ row_if (opt_model data beneish) (\<lambda>b. [StrV ''Beneish M-Score'', num_or_empty_cell (m_score b)])
     @ row_if (opt_model data altman) (\<lambda>a. [StrV ''Altman Z-Score'', num_or_empty_cell (z_score a)])
     @ row_if (opt_model data piotroski) (\<lambda>p. [StrV ''Piotroski F-Score'', num_or_empty_cell (f_score p)])
     @ [ [StrV ''Red Flags'',
          NumV (case red_flags_length data of None \<Rightarrow> 0 | Some n \<Rightarrow> of_nat n)] ]"

fun join :: "string \<Rightarrow> string list \<Rightarrow> string" where
  "join sep [] = []"
| "join sep [x] = x"
| "join sep (x # y # ys) = x @ sep @ join sep (y # ys)"

definition cell_text :: "(rat \<Rightarrow> string) \<Rightarrow> cell \<Rightarrow> string" where
  "cell_text num_str c = (case c of NumV x \<Rightarrow> num_str x | StrV t \<Rightarrow> t)"

definition convertToCSV :: "(rat \<Rightarrow> string) \<Rightarrow> report \<Rightarrow> string" where
  "convertToCSV num_str data =
     join [CHR 0x0A]
       (map (\<lambda>r. join '','' (map (\<lambda>c. [CHR 0x22] @ cell_text num_str c @ [CHR 0x22]) r))
          (csv_rows data))"

text \<open>
  \<^verbatim>\<open>generateHTMLReport\<close>, the risk summary and the table of model scores:
  \<^verbatim>\<open>
  <span class="${getRiskClass(data.overall_risk?.level)}">${data.overall_risk?.level || 'Unknown'}</span>
  <p><strong>Score:</strong> ${((data.overall_risk?.score || 0) * 100).toFixed(0)}%</p>
  ${data.models?.beneish ? `<tr><td>Beneish M-Score</td><td>${data.models.beneish.m_score?.toFixed(2)}</td>
     <td>${data.models.beneish.m_score > -2.22 ? 'Likely Manipulator' : 'Unlikely Manipulator'}</td></tr>` : ''}
  ${data.models?.altman ? `<tr><td>Altman Z-Score</td><td>${data.models.altman.z_score?.toFixed(2)}</td>
     <td>${data.models.altman.z_score > 2.99 ? 'Safe' : (data.models.altman.z_score < 1.81 ? 'Distress' : 'Gray')}</td></tr>` : ''}
  ${data.models?.piotroski ? `<tr><td>Piotroski F-Score</td><td>${data.models.piotroski.f_score}</td>
     <td>${data.models.piotroski.f_score >= 7 ? 'Strong' : (data.models.piotroski.f_score <= 3 ? 'Weak' : 'Moderate')}</td></tr>` : ''}
  <h2>Red Flags (${data.red_flags?.length || 0})</h2>
  \<close>
\<close>

record html_row =
  model_name :: string
  score_cell :: cell
  row_label :: string


definition undefined_or :: "string js \<Rightarrow> string" where
  "undefined_or s = (case s of Val v \<Rightarrow> v | Undefined \<Rightarrow> ''undefined'' | Null \<Rightarrow> ''null'')"


definition beneish_row :: "beneish_result \<Rightarrow> html_row" where
  "beneish_row b =
     \<lparr> model_name = ''Beneish M-Score'',
       score_cell = StrV (undefined_or (toFixed_opt (m_score b) 2)),
       row_label =
         (if js_gt (m_score b) (-2.22) then ''Likely Manipulator'' else ''Unlikely Manipulator'') \<rparr>"

definition altman_row :: "altman_result \<Rightarrow> html_row" where
  "altman_row a =
     \<lparr> model_name = ''Altman Z-Score'',
       score_cell = StrV (undefined_or (toFixed_opt (z_score a) 2)),
       row_label =
         (if js_gt (z_score a) 2.99 then ''Safe''
          else (if js_lt (z_score a) 1.81 then ''Distress'' else ''Gray'')) \<rparr>"

definition piotroski_row :: "piotroski_result \<Rightarrow> html_row" where
  "piotroski_row p =
     \<lparr> model_name = ''Piotroski F-Score'',
       score_cell = raw_num_cell (f_score p),
       row_label =
         (if js_ge (f_score p) 7 then ''Strong''
          else (if js_le (f_score p) 3 then ''Weak'' else ''Moderate'')) \<rparr>"



section \<open>Analysis history functions\<close>

text \<open>
  \<^verbatim>\<open>
  function addToHistory(identifier, data) {
      const entry = {
          identifier: identifier,
          company: data.company?.name || identifier,
          timestamp: new Date().toISOString(),
          riskLevel: data.overall_risk?.level || 'Unknown'
      };
      analysisHistory.unshift(entry);
      if (analysisHistory.length > 50) { analysisHistory.pop(); }
      localStorage.setItem('analysisHistory', JSON.stringify(analysisHistory));
  }
  \<close>
\<close>

definition history_entry_of :: "string \<Rightarrow> report \<Rightarrow> string \<Rightarrow> history_entry" where
  "history_entry_of ident data now =
     \<lparr> entry_identifier = ident,
       company = str_or (opt_field (report.company data) name) ident,
       timestamp = now,
       riskLevel = str_or (opt_field (overall_risk data) level) ''Unknown'' \<rparr>"

definition addToHistory :: "string \<Rightarrow> report \<Rightarrow> string \<Rightarrow> app_state \<Rightarrow> app_state" where
  "addToHistory ident data now s =
     (let unshifted = history_entry_of ident data now # analysisHistory s;
          popped = (if length unshifted > 50 then butlast unshifted else unshifted)
      in s\<lparr> analysisHistory := popped, stored_analysisHistory := Some popped \<rparr>)"

text \<open>
  \<^verbatim>\<open>
  function loadHistory() {
      const stored = localStorage.getItem('analysisHistory');
      if (stored) { try { analysisHistory = JSON.parse(stored); } catch (e) { analysisHistory = []; } }
  }
  function clearHistory() {
      analysisHistory = [];
      localStorage.removeItem('analysisHistory');
      ...
  }
  \<close>
\<close>

definition loadHistory :: "app_state \<Rightarrow> app_state" where
  "loadHistory s =
     (case stored_analysisHistory s of
        None \<Rightarrow> s
      | Some h \<Rightarrow> s\<lparr> analysisHistory := h \<rparr>)"

definition clearHistory :: "app_state \<Rightarrow> app_state" where
  "clearHistory s = s\<lparr> analysisHistory := [], stored_analysisHistory := None \<rparr>"

text \<open>
  The demo branch of \<^verbatim>\<open>analyzeCompany\<close>, run in the globals and at the time of \<open>env\<close>:
  \<^verbatim>\<open>
  currentData = generateDemoData(identifier);
  displayResults(currentData);
  addToHistory(identifier, currentData);
  \<close>
\<close>

definition analyzeCompany_demo :: "string \<Rightarrow> ambient \<Rightarrow> app_state" where
  "analyzeCompany_demo ident env =
     addToHistory ident (generateDemoData env ident) (clock env)
       ((globals env)\<lparr> currentData := Some (generateDemoData env ident) \<rparr>)"

text \<open>
  The states the client can be in: the page starts in \<open>initial_state\<close>; a reload resets the
  globals and keeps \<^verbatim>\<open>localStorage\<close>; the history is written by \<open>addToHistory\<close>,
  \<open>loadHistory\<close> and \<open>clearHistory\<close> only, every other function leaves the history and its
  stored copy as they are.
\<close>

inductive reachable :: "app_state \<Rightarrow> bool" where
  start: "reachable initial_state"
| reload: "reachable s \<Longrightarrow>
     reachable (initial_state\<lparr> stored_analysisHistory := stored_analysisHistory s \<rparr>)"
| add: "reachable s \<Longrightarrow> reachable (addToHistory ident data now s)"
| load: "reachable s \<Longrightarrow> reachable (loadHistory s)"
| clear: "reachable s \<Longrightarrow> reachable (clearHistory s)"
| other: "reachable s \<Longrightarrow> analysisHistory s' = analysisHistory s \<Longrightarrow>
     stored_analysisHistory s' = stored_analysisHistory s \<Longrightarrow> reachable s'"


section \<open>The banding of the specification, and example values\<close>

text \<open>
  The Beneish banding as the specification words it: \<open>M < -2.22\<close> is LOW, \<open>-2.22 \<le> M \<le> -1.78\<close>
  is MODERATE, \<open>M > -1.78\<close> is HIGH. It is compared with \<open>beneish_card\<close> below; the class of
  a band is the one \<^verbatim>\<open>getRiskClass\<close> gives its name.
\<close>

datatype risk_band = LOW | MODERATE | HIGH

definition spec_beneish_band :: "rat \<Rightarrow> risk_band" where
  "spec_beneish_band m = (if m < -2.22 then LOW else if m \<le> -1.78 then MODERATE else HIGH)"

definition spec_band_class :: "risk_band \<Rightarrow> string" where
  "spec_band_class b =
     (case b of LOW \<Rightarrow> ''risk-low'' | MODERATE \<Rightarrow> ''risk-moderate'' | HIGH \<Rightarrow> ''risk-high'')"

text \<open>A Beneish result that carries an M-Score only.\<close>

definition beneish_of :: "rat \<Rightarrow> beneish_result" where
  "beneish_of m =
     \<lparr> m_score = Val m, dsri = Undefined, gmi = Undefined, aqi = Undefined, sgi = Undefined \<rparr>"



text \<open>A Fraud Triangle result with a given score and a given level.\<close>

definition fraud_triangle_of :: "rat js \<Rightarrow> string js \<Rightarrow> fraud_triangle_result" where
  "fraud_triangle_of r l =
     \<lparr> risk_score = r, fraud_triangle_result.risk_level = l, pressure = Undefined,
       opportunity = Undefined, rationalization = Undefined \<rparr>"

text \<open>An environment that differs from the initial one in every part.\<close>

definition other_ambient :: ambient where
  "other_ambient =
     \<lparr> globals = initial_state \<lparr> apiBaseUrl := ''http://localhost:8080'', isConnected := True,
                   isDemoMode := True, isDarkMode := True, requestTimeout := 60 \<rparr>,
       clock = ''2026-06-30T12:00:00.000Z'', math_random = 0.5 \<rparr>"

text \<open>The state after fifty analyses: the history is full.\<close>

definition full_history_state :: app_state where
  "full_history_state =
     ((addToHistory ''AAPL'' (generateDemoData initial_ambient ''AAPL'')
         ''2001-12-02T00:00:00.000Z'') ^^ 50)
       initial_state"

text \<open>The bound on the history and on its stored copy.\<close>

definition history_bounded :: "app_state \<Rightarrow> bool" where
  "history_bounded s =
     (length (analysisHistory s) \<le> 50
      \<and> (case stored_analysisHistory s of None \<Rightarrow> True | Some h \<Rightarrow> length h \<le> 50))"

section \<open>Helper lemmas\<close>

lemmas js_cmp_defs = js_gt_def js_lt_def js_ge_def js_le_def

lemma startsWith_iff: "startsWith s p \<longleftrightarrow> (\<exists>post. s = p @ post)"
  by (induction s p rule: startsWith.induct) auto

lemma includes_str_iff: "includes_str s sub \<longleftrightarrow> (\<exists>pre post. s = pre @ sub @ post)"
proof (induction s)
  case Nil
  then show ?case by auto
next
  case (Cons c cs)
  show ?case
  proof
    assume "includes_str (c # cs) sub"
    then consider "startsWith (c # cs) sub" | "includes_str cs sub" by auto
    then show "\<exists>pre post. c # cs = pre @ sub @ post"
    proof cases
      case 1
      then obtain post where "c # cs = sub @ post" by (auto simp: startsWith_iff)
      then have "c # cs = [] @ sub @ post" by simp
      then show ?thesis by blast
    next
      case 2
      with Cons obtain pre post where "cs = pre @ sub @ post" by auto
      then have "c # cs = (c # pre) @ sub @ post" by simp
      then show ?thesis by blast
    qed
  next
    assume "\<exists>pre post. c # cs = pre @ sub @ post"
    then obtain pre post where e: "c # cs = pre @ sub @ post" by auto
    show "includes_str (c # cs) sub"
    proof (cases pre)
      case Nil
      with e have "startsWith (c # cs) sub" by (auto simp: startsWith_iff)
      then show ?thesis by simp
    next
      case (Cons a pre')
      with e have "cs = pre' @ sub @ post" by simp
      with Cons.IH have "includes_str cs sub" by blast
      then show ?thesis by simp
    qed
  qed
qed

lemma toUpperCase_contains:
  "(\<exists>pre post. toUpperCase ident = pre @ u @ post)
   \<longleftrightarrow> (\<exists>pre w post. ident = pre @ w @ post \<and> toUpperCase w = u)"
proof
  assume "\<exists>pre post. toUpperCase ident = pre @ u @ post"
  then obtain pre post where e: "map toUpperCase_char ident = pre @ (u @ post)"
    unfolding toUpperCase_def by blast
  from e obtain a r where a: "ident = a @ r" "u @ post = map toUpperCase_char r"
    unfolding map_eq_append_conv by blast
  from a(2) have "map toUpperCase_char r = u @ post" by (rule sym)
  then obtain w b where w: "r = w @ b" "u = map toUpperCase_char w"
    unfolding map_eq_append_conv by blast
  from a(1) w have "ident = a @ w @ b \<and> toUpperCase w = u"
    unfolding toUpperCase_def by blast
  then show "\<exists>pre w post. ident = pre @ w @ post \<and> toUpperCase w = u" by blast
next
  assume "\<exists>pre w post. ident = pre @ w @ post \<and> toUpperCase w = u"
  then obtain pre w post where p: "ident = pre @ w @ post" "toUpperCase w = u" by blast
  have "toUpperCase ident = toUpperCase pre @ toUpperCase w @ toUpperCase post"
    unfolding p(1) toUpperCase_def by (simp only: map_append)
  with p(2) have "toUpperCase ident = toUpperCase pre @ u @ toUpperCase post" by (simp only:)
  then show "\<exists>pre post. toUpperCase ident = pre @ u @ post" by blast
qed

lemma isEnron_iff:
  "isEnron ident \<longleftrightarrow>
     (\<exists>pre w post. ident = pre @ w @ post \<and> toUpperCase w = ''ENRON'') \<or> ident = ''0001024401''"
  unfolding isEnron_def includes_str_iff toUpperCase_contains ..

lemma toFixed_m142: "toFixed (-1.42) 2 = ''-1.42''" by code_simp
lemma toFixed_z125: "toFixed 1.25 2 = ''1.25''" by code_simp
lemma toFixed_85: "toFixed (fmul 0.85 100) 0 = ''85''" by code_simp

lemma int_digits_nonempty: "int_digits n \<noteq> []"
  by (subst int_digits.simps) simp

lemma toFixed_nonempty: "toFixed x f \<noteq> []"
  by (simp add: toFixed_def Let_def int_digits_nonempty)



text \<open>The rounding is that of the double, not of the decimal text.\<close>

lemma toFixed_binary_rounding:
  "toFixed (fmul 0.285 100) 0 = ''28'' \<and> toFixed 1.005 2 = ''1.00'' \<and> toFixed 2.5 0 = ''3''"
  by code_simp

lemma addToHistory_history:
  "analysisHistory (addToHistory ident data now s) =
     (if length (analysisHistory s) < 50 then history_entry_of ident data now # analysisHistory s
      else butlast (history_entry_of ident data now # analysisHistory s))"
  by (simp add: addToHistory_def Let_def)

lemma addToHistory_stored:
  "stored_analysisHistory (addToHistory ident data now s)
   = Some (analysisHistory (addToHistory ident data now s))"
  by (simp add: addToHistory_def Let_def)

lemma addToHistory_length:
  "length (analysisHistory s) \<le> 50 \<Longrightarrow>
   length (analysisHistory (addToHistory ident data now s)) = min 50 (Suc (length (analysisHistory s)))"
  by (simp add: addToHistory_history)

lemma reachable_history_bounded: "reachable s \<Longrightarrow> history_bounded s"
proof (induction rule: reachable.induct)
  case start
  show ?case by (simp add: history_bounded_def initial_state_def)
next
  case (reload s)
  then show ?case by (simp add: history_bounded_def initial_state_def)
next
  case (add s ident data now)
  then have "length (analysisHistory s) \<le> 50" by (simp add: history_bounded_def)
  then have "length (analysisHistory (addToHistory ident data now s)) \<le> 50"
    by (simp add: addToHistory_length)
  then show ?case by (simp add: history_bounded_def addToHistory_stored)
next
  case (load s)
  then show ?case by (auto simp: history_bounded_def loadHistory_def split: option.splits)
next
  case (clear s)
  then show ?case by (simp add: history_bounded_def clearHistory_def)
next
  case (other s s')
  then show ?case by (simp add: history_bounded_def)
qed

lemma reachable_funpow: "reachable s \<Longrightarrow> reachable ((addToHistory ident data now ^^ n) s)"
  by (induction n) (auto intro: reachable.add)

lemma funpow_history_length:
  "length (analysisHistory s) \<le> 50 \<Longrightarrow>
   length (analysisHistory ((addToHistory ident data now ^^ n) s))
   = min 50 (length (analysisHistory s) + n)"
proof (induction n)
  case 0
  then show ?case by simp
next
  case (Suc n)
  then have "length (analysisHistory ((addToHistory ident data now ^^ n) s)) \<le> 50" by simp
  from addToHistory_length [OF this] Suc show ?case by simp
qed

section \<open>The Enron demo report\<close>

text \<open>
  C1. For every identifier recognised as Enron (\<open>isEnron\<close>: it contains \<^verbatim>\<open>enron\<close> in any case,
  or it is the CIK \<^verbatim>\<open>0001024401\<close>, see \<open>isEnron_iff\<close>), and in every environment, the
  generated report carries the M-Score \<open>-1.42\<close>, which the models panel shows as
  \<^verbatim>\<open>risk-high\<close>, Likely Manipulator; the
  Z-Score \<open>1.25\<close> with zone Distress, shown as \<^verbatim>\<open>risk-high\<close>, Distress Zone; the overall
  level CRITICAL with score \<open>0.85\<close>, shown as \<^verbatim>\<open>risk-critical\<close>, 85%; and five red flags, so
  at least three.
\<close>

theorem C1_enron_demo_report:
  "isEnron ident \<Longrightarrow>
     opt_field (opt_model (generateDemoData env ident) beneish) m_score = Val (-1.42)
   \<and> displayModels (generateDemoData env ident) ! 0 =
       \<lparr> value_class = ''risk-high'', value_text = StrV ''-1.42'',
         score_label = ''Beneish M-Score'', indicator_class = ''bg-high'',
         indicator_text = ''Likely Manipulator'', footnote = Some ''Threshold: -2.22'' \<rparr>
   \<and> opt_field (opt_model (generateDemoData env ident) altman) z_score = Val 1.25
   \<and> opt_field (opt_model (generateDemoData env ident) altman) zone = Val ''Distress''
   \<and> displayModels (generateDemoData env ident) ! 1 =
       \<lparr> value_class = ''risk-high'', value_text = StrV ''1.25'',
         score_label = ''Altman Z-Score'', indicator_class = ''bg-high'',
         indicator_text = ''Distress Zone'', footnote = None \<rparr>
   \<and> opt_field (overall_risk (generateDemoData env ident)) level = Val ''CRITICAL''
   \<and> opt_field (overall_risk (generateDemoData env ident)) score = Val 0.85
   \<and> risk_indicator_text (displayOverview (generateDemoData env ident)) = ''CRITICAL''
   \<and> risk_class (displayOverview (generateDemoData env ident)) = ''risk-critical''
   \<and> risk_score_text (displayOverview (generateDemoData env ident)) = ''85%''
   \<and> red_flags_length (generateDemoData env ident) = Some 5
   \<and> 3 \<le> length (the (red_flags (generateDemoData env ident)))"
proof -
  assume e: "isEnron ident"
  have up: "toUpperCase ''CRITICAL'' = ''CRITICAL''" by code_simp
  have m: "models (generateDemoData env ident) = Some (demo_models ident)"
    by (simp add: generateDemoData_def)
  have b: "beneish (demo_models ident) = Some \<lparr> m_score = Val (-1.42), dsri = Val 1.35,
             gmi = Val 1.15, aqi = Val 1.28, sgi = Val 1.45 \<rparr>"
    using e by (simp add: demo_models_def)
  have a: "altman (demo_models ident) = Some \<lparr> z_score = Val 1.25, zone = Val ''Distress'' \<rparr>"
    using e by (simp add: demo_models_def)
  have r: "overall_risk (generateDemoData env ident)
           = Some \<lparr> score = Val 0.85, level = Val ''CRITICAL'', summary = Undefined \<rparr>"
    using e by (simp add: generateDemoData_def demo_overall_risk_def)
  have f: "red_flags (generateDemoData env ident) = Some enron_red_flags"
    using e by (simp add: generateDemoData_def)
  have c0: "displayModels (generateDemoData env ident) ! 0 = beneish_card \<lparr> m_score = Val (-1.42), dsri = Val 1.35,
             gmi = Val 1.15, aqi = Val 1.28, sgi = Val 1.45 \<rparr>"
    by (simp add: displayModels_def m b card_if_def Let_def)
  have c1: "displayModels (generateDemoData env ident) ! 1 = altman_card \<lparr> z_score = Val 1.25, zone = Val ''Distress'' \<rparr>"
    by (simp add: displayModels_def m b a card_if_def Let_def)
  have t1: "opt_field (opt_model (generateDemoData env ident) beneish) m_score = Val (-1.42)"
    by (simp add: opt_field_def opt_model_def m b)
  have t2: "displayModels (generateDemoData env ident) ! 0 =
       \<lparr> value_class = ''risk-high'', value_text = StrV ''-1.42'',
         score_label = ''Beneish M-Score'', indicator_class = ''bg-high'',
         indicator_text = ''Likely Manipulator'', footnote = Some ''Threshold: -2.22'' \<rparr>"
    unfolding c0 using toFixed_m142
    by (simp add: beneish_card_def js_cmp_defs toFixed_opt_def str_or_def)
  have t3: "opt_field (opt_model (generateDemoData env ident) altman) z_score = Val 1.25
            \<and> opt_field (opt_model (generateDemoData env ident) altman) zone = Val ''Distress''"
    by (simp add: opt_field_def opt_model_def m a)
  have t4: "displayModels (generateDemoData env ident) ! 1 =
       \<lparr> value_class = ''risk-high'', value_text = StrV ''1.25'',
         score_label = ''Altman Z-Score'', indicator_class = ''bg-high'',
         indicator_text = ''Distress Zone'', footnote = None \<rparr>"
    unfolding c1 using toFixed_z125
    by (simp add: altman_card_def altman_zone_def js_cmp_defs toFixed_opt_def str_or_def)
  have t5: "opt_field (overall_risk (generateDemoData env ident)) level = Val ''CRITICAL''
            \<and> opt_field (overall_risk (generateDemoData env ident)) score = Val 0.85"
    by (simp add: opt_field_def r)
  have t6: "risk_indicator_text (displayOverview (generateDemoData env ident)) = ''CRITICAL''
            \<and> risk_class (displayOverview (generateDemoData env ident)) = ''risk-critical''
            \<and> risk_score_text (displayOverview (generateDemoData env ident)) = ''85%''"
    using toFixed_85
    by (simp add: displayOverview_def overview_risk_def r str_or_def num_or_zero_def
          getRiskClass_def up Let_def)
  have t7: "red_flags_length (generateDemoData env ident) = Some 5
            \<and> 3 \<le> length (the (red_flags (generateDemoData env ident)))"
    by (simp add: red_flags_length_def f enron_red_flags_def)
  from t1 t2 t3 t4 t5 t6 t7 show ?thesis by blast
qed

theorem C1_witness:
  "isEnron ''Enron Corp''
   \<and> isEnron ''0001024401''
   \<and> opt_field (opt_model (generateDemoData initial_ambient ''Enron Corp'') beneish) m_score = Val (-1.42)
   \<and> opt_field (opt_model (generateDemoData initial_ambient ''Enron Corp'') altman) zone = Val ''Distress''
   \<and> risk_indicator_text (displayOverview (generateDemoData initial_ambient ''Enron Corp'')) = ''CRITICAL''
   \<and> red_flags_length (generateDemoData initial_ambient ''Enron Corp'') = Some 5
   \<and> risk_indicator_text (displayOverview (generateDemoData initial_ambient ''0001024401'')) = ''CRITICAL''
   \<and> red_flags_length (generateDemoData initial_ambient ''0001024401'') = Some 5"
proof -
  have h1: "isEnron ''Enron Corp''" by code_simp
  have h2: "isEnron ''0001024401''" by code_simp
  from C1_enron_demo_report [OF h1, of initial_ambient]
       C1_enron_demo_report [OF h2, of initial_ambient] h1 h2
  show ?thesis by blast
qed

section \<open>Model classification in the models panel and the HTML report\<close>

text \<open>
  C2, as stated, fails at \<open>M = -2\<close>: the specification's banding puts it in the MODERATE
  band (grey zone), the panel and the HTML report label it Likely Manipulator with the class
  \<^verbatim>\<open>risk-high\<close>.
\<close>

theorem C2_counterexample:
  "spec_beneish_band (-2) = MODERATE
   \<and> value_class (beneish_card (beneish_of (-2))) = ''risk-high''
   \<and> indicator_text (beneish_card (beneish_of (-2))) = ''Likely Manipulator''
   \<and> row_label (beneish_row (beneish_of (-2))) = ''Likely Manipulator''
   \<and> value_class (beneish_card (beneish_of (-2))) \<noteq> spec_band_class (spec_beneish_band (-2))"
  by (simp add: spec_beneish_band_def spec_band_class_def beneish_of_def beneish_card_def
        beneish_row_def js_cmp_defs)

text \<open>
  C2 (amended). For every displayed Beneish result with a computed M-Score, classification
  uses the single threshold \<open>-2.22\<close>, which the card prints: \<open>M > -2.22\<close> is labelled
  Likely Manipulator with the classes \<^verbatim>\<open>risk-high\<close> and \<^verbatim>\<open>bg-high\<close>, and \<open>M \<le> -2.22\<close> is
  labelled Unlikely Manipulator with \<^verbatim>\<open>risk-low\<close> and \<^verbatim>\<open>bg-low\<close>. So \<open>M < -2.22\<close> is LOW and
  \<open>M > -1.78\<close> is HIGH as claimed, but so is every \<open>M\<close> in \<open>(-2.22, -1.78]\<close>, and \<open>-2.22\<close>
  itself is LOW: there is no MODERATE band.
\<close>

theorem C2_beneish_single_threshold:
  "m_score b = Val m \<Longrightarrow>
   (-2.22 < m \<longrightarrow>
      value_class (beneish_card b) = ''risk-high'' \<and> indicator_class (beneish_card b) = ''bg-high''
      \<and> indicator_text (beneish_card b) = ''Likely Manipulator''
      \<and> row_label (beneish_row b) = ''Likely Manipulator'')
   \<and> (m \<le> -2.22 \<longrightarrow>
      value_class (beneish_card b) = ''risk-low'' \<and> indicator_class (beneish_card b) = ''bg-low''
      \<and> indicator_text (beneish_card b) = ''Unlikely Manipulator''
      \<and> row_label (beneish_row b) = ''Unlikely Manipulator'')
   \<and> value_class (beneish_card b) \<noteq> ''risk-moderate''
   \<and> indicator_class (beneish_card b) \<noteq> ''bg-moderate''
   \<and> footnote (beneish_card b) = Some ''Threshold: -2.22''"
  by (simp add: beneish_card_def beneish_row_def js_cmp_defs)

theorem C2_witness:
  "value_class (beneish_card (beneish_of (-1.42))) = ''risk-high''
   \<and> indicator_text (beneish_card (beneish_of (-1.42))) = ''Likely Manipulator''
   \<and> value_class (beneish_card (beneish_of (-2))) = ''risk-high''
   \<and> value_class (beneish_card (beneish_of (-2.22))) = ''risk-low''
   \<and> indicator_text (beneish_card (beneish_of (-2.22))) = ''Unlikely Manipulator''
   \<and> value_class (beneish_card (beneish_of (-2.85))) = ''risk-low''"
  using C2_beneish_single_threshold [of "beneish_of (-1.42)" "-1.42"]
        C2_beneish_single_threshold [of "beneish_of (-2)" "-2"]
        C2_beneish_single_threshold [of "beneish_of (-2.22)" "-2.22"]
        C2_beneish_single_threshold [of "beneish_of (-2.85)" "-2.85"]
  by (simp add: beneish_of_def)

text \<open>
  C3. For every displayed Altman result with Z-Score \<open>z\<close>: \<open>z > 2.99\<close> is the Safe zone with the
  low-risk classes, \<open>z < 1.81\<close> is the Distress zone with the high-risk classes, and every
  \<open>z\<close> from \<open>1.81\<close> to \<open>2.99\<close>, both ends included, is the Gray zone with the moderate classes;
  the HTML report gives the same zone.
\<close>

theorem C3_altman_classification:
  "z_score a = Val z \<Longrightarrow>
   (2.99 < z \<longrightarrow>
      indicator_text (altman_card a) = ''Safe Zone'' \<and> value_class (altman_card a) = ''risk-low''
      \<and> indicator_class (altman_card a) = ''bg-low'' \<and> row_label (altman_row a) = ''Safe'')
   \<and> (z < 1.81 \<longrightarrow>
      indicator_text (altman_card a) = ''Distress Zone'' \<and> value_class (altman_card a) = ''risk-high''
      \<and> indicator_class (altman_card a) = ''bg-high'' \<and> row_label (altman_row a) = ''Distress'')
   \<and> (1.81 \<le> z \<and> z \<le> 2.99 \<longrightarrow>
      indicator_text (altman_card a) = ''Gray Zone'' \<and> value_class (altman_card a) = ''risk-moderate''
      \<and> indicator_class (altman_card a) = ''bg-moderate'' \<and> row_label (altman_row a) = ''Gray'')"
  by (simp add: altman_card_def altman_row_def altman_zone_def js_cmp_defs)

theorem C3_witness:
  "indicator_text (altman_card \<lparr>z_score = Val 1.81, zone = Undefined\<rparr>) = ''Gray Zone''
   \<and> value_class (altman_card \<lparr>z_score = Val 1.81, zone = Undefined\<rparr>) = ''risk-moderate''
   \<and> indicator_text (altman_card \<lparr>z_score = Val 2.99, zone = Undefined\<rparr>) = ''Gray Zone''
   \<and> value_class (altman_card \<lparr>z_score = Val 2.99, zone = Undefined\<rparr>) = ''risk-moderate''
   \<and> indicator_text (altman_card \<lparr>z_score = Val 3.45, zone = Val ''Safe''\<rparr>) = ''Safe Zone''
   \<and> value_class (altman_card \<lparr>z_score = Val 3.45, zone = Val ''Safe''\<rparr>) = ''risk-low''
   \<and> indicator_text (altman_card \<lparr>z_score = Val 1.25, zone = Val ''Distress''\<rparr>) = ''Distress Zone''
   \<and> value_class (altman_card \<lparr>z_score = Val 1.25, zone = Val ''Distress''\<rparr>) = ''risk-high''"
  using C3_altman_classification [of "\<lparr>z_score = Val 1.81, zone = Undefined\<rparr>" "1.81"]
        C3_altman_classification [of "\<lparr>z_score = Val 2.99, zone = Undefined\<rparr>" "2.99"]
        C3_altman_classification [of "\<lparr>z_score = Val 3.45, zone = Val ''Safe''\<rparr>" "3.45"]
        C3_altman_classification [of "\<lparr>z_score = Val 1.25, zone = Val ''Distress''\<rparr>" "1.25"]
  by simp

text \<open>
  C4, as stated, fails: two Benford results with the same deviation \<open>8.5\<close> are classified
  Normal and Anomaly Detected, following the \<^verbatim>\<open>suspicious\<close> field they carry.
\<close>

theorem C4_counterexample:
  "deviation \<lparr> deviation = Val 8.5, suspicious = Val False \<rparr>
     = deviation \<lparr> deviation = Val 8.5, suspicious = Val True \<rparr>
   \<and> indicator_text (benford_card \<lparr> deviation = Val 8.5, suspicious = Val False \<rparr>) = ''Normal''
   \<and> value_class (benford_card \<lparr> deviation = Val 8.5, suspicious = Val False \<rparr>) = ''risk-low''
   \<and> indicator_text (benford_card \<lparr> deviation = Val 8.5, suspicious = Val True \<rparr>) = ''Anomaly Detected''
   \<and> value_class (benford_card \<lparr> deviation = Val 8.5, suspicious = Val True \<rparr>) = ''risk-high''"
  by (simp add: benford_card_def)

text \<open>
  C4 (amended). For every displayed Benford result, classification is two-banded on the
  \<^verbatim>\<open>suspicious\<close> field, which is read as it comes: a true flag gives Anomaly Detected with
  the high-risk classes, anything else gives Normal with the low-risk classes; there is no
  MODERATE band, the deviation is printed and has no part in the classification, and the
  demo generator sets the flag to \<open>isEnron\<close>.
\<close>

theorem C4_benford_flag_consumed:
  "(truthy_bool (suspicious bf) \<longrightarrow>
      value_class (benford_card bf) = ''risk-high'' \<and> indicator_class (benford_card bf) = ''bg-high''
      \<and> indicator_text (benford_card bf) = ''Anomaly Detected'')
   \<and> (\<not> truthy_bool (suspicious bf) \<longrightarrow>
      value_class (benford_card bf) = ''risk-low'' \<and> indicator_class (benford_card bf) = ''bg-low''
      \<and> indicator_text (benford_card bf) = ''Normal'')
   \<and> value_class (benford_card bf) \<noteq> ''risk-moderate''
   \<and> indicator_class (benford_card bf) \<noteq> ''bg-moderate''
   \<and> value_class (benford_card (bf\<lparr> deviation := d \<rparr>)) = value_class (benford_card bf)
   \<and> indicator_class (benford_card (bf\<lparr> deviation := d \<rparr>)) = indicator_class (benford_card bf)
   \<and> indicator_text (benford_card (bf\<lparr> deviation := d \<rparr>)) = indicator_text (benford_card bf)
   \<and> opt_field (opt_model (generateDemoData env ident) benford) suspicious = Val (isEnron ident)"
  by (simp add: benford_card_def opt_field_def opt_model_def generateDemoData_def demo_models_def)

theorem C4_witness:
  "indicator_text (benford_card \<lparr> deviation = Val 2.1, suspicious = Val True \<rparr>) = ''Anomaly Detected''
   \<and> indicator_text (benford_card \<lparr> deviation = Val 8.5, suspicious = Val False \<rparr>) = ''Normal''
   \<and> indicator_text (benford_card \<lparr> deviation = Val 8.5, suspicious = Undefined \<rparr>) = ''Normal''"
  using C4_benford_flag_consumed [of "\<lparr> deviation = Val 2.1, suspicious = Val True \<rparr>"]
        C4_benford_flag_consumed [of "\<lparr> deviation = Val 8.5, suspicious = Val False \<rparr>"]
        C4_benford_flag_consumed [of "\<lparr> deviation = Val 8.5, suspicious = Undefined \<rparr>"]
  by simp

text \<open>
  C6. For every displayed Piotroski result with F-Score \<open>f\<close>: \<open>f \<le> 3\<close> (the scores 0 to 3) is
  Weak with the high-risk classes, \<open>3 < f < 7\<close> (4 to 6) is Moderate, and \<open>f \<ge> 7\<close> (7 to 9) is
  Strong with the low-risk classes; the HTML report gives the same rating.
\<close>

theorem C6_piotroski_classification:
  "f_score p = Val f \<Longrightarrow>
   (f \<le> 3 \<longrightarrow>
      indicator_text (piotroski_card p) = ''Weak'' \<and> value_class (piotroski_card p) = ''risk-high''
      \<and> indicator_class (piotroski_card p) = ''bg-high'' \<and> row_label (piotroski_row p) = ''Weak'')
   \<and> (3 < f \<and> f < 7 \<longrightarrow>
      indicator_text (piotroski_card p) = ''Moderate'' \<and> value_class (piotroski_card p) = ''risk-moderate''
      \<and> indicator_class (piotroski_card p) = ''bg-moderate'' \<and> row_label (piotroski_row p) = ''Moderate'')
   \<and> (7 \<le> f \<longrightarrow>
      indicator_text (piotroski_card p) = ''Strong'' \<and> value_class (piotroski_card p) = ''risk-low''
      \<and> indicator_class (piotroski_card p) = ''bg-low'' \<and> row_label (piotroski_row p) = ''Strong'')"
  by (simp add: piotroski_card_def piotroski_row_def piotroski_rating_def js_cmp_defs)

theorem C6_witness:
  "indicator_text (piotroski_card \<lparr> f_score = Val 0 \<rparr>) = ''Weak''
   \<and> value_class (piotroski_card \<lparr> f_score = Val 0 \<rparr>) = ''risk-high''
   \<and> indicator_text (piotroski_card \<lparr> f_score = Val 3 \<rparr>) = ''Weak''
   \<and> indicator_text (piotroski_card \<lparr> f_score = Val 4 \<rparr>) = ''Moderate''
   \<and> value_class (piotroski_card \<lparr> f_score = Val 6 \<rparr>) = ''risk-moderate''
   \<and> indicator_text (piotroski_card \<lparr> f_score = Val 7 \<rparr>) = ''Strong''
   \<and> indicator_text (piotroski_card \<lparr> f_score = Val 9 \<rparr>) = ''Strong''
   \<and> value_class (piotroski_card \<lparr> f_score = Val 9 \<rparr>) = ''risk-low''"
  using C6_piotroski_classification [of "\<lparr> f_score = Val 0 \<rparr>" 0]
        C6_piotroski_classification [of "\<lparr> f_score = Val 3 \<rparr>" 3]
        C6_piotroski_classification [of "\<lparr> f_score = Val 4 \<rparr>" 4]
        C6_piotroski_classification [of "\<lparr> f_score = Val 6 \<rparr>" 6]
        C6_piotroski_classification [of "\<lparr> f_score = Val 7 \<rparr>" 7]
        C6_piotroski_classification [of "\<lparr> f_score = Val 9 \<rparr>" 9]
  by simp

text \<open>
  C7, as stated, fails for the word the badge shows: a result with the risk score \<open>0.1\<close>
  that carries the level HIGH is shown with the word HIGH on the low-risk classes, and one
  with the score \<open>0.9\<close> that carries the level LOW is shown with the word LOW on the
  high-risk classes.
\<close>

theorem C7_counterexample:
  "indicator_text (fraud_triangle_card (fraud_triangle_of (Val 0.1) (Val ''HIGH''))) = ''HIGH''
   \<and> value_class (fraud_triangle_card (fraud_triangle_of (Val 0.1) (Val ''HIGH''))) = ''risk-low''
   \<and> indicator_class (fraud_triangle_card (fraud_triangle_of (Val 0.1) (Val ''HIGH''))) = ''bg-low''
   \<and> indicator_text (fraud_triangle_card (fraud_triangle_of (Val 0.9) (Val ''LOW''))) = ''LOW''
   \<and> value_class (fraud_triangle_card (fraud_triangle_of (Val 0.9) (Val ''LOW''))) = ''risk-high''
   \<and> indicator_class (fraud_triangle_card (fraud_triangle_of (Val 0.9) (Val ''LOW''))) = ''bg-high''"
  by (simp add: fraud_triangle_card_def fraud_triangle_of_def js_cmp_defs str_or_def)

text \<open>
  C7 (amended). For every displayed Fraud Triangle result with a numeric risk score \<open>r\<close> (in
  particular every \<open>r\<close> in \<open>[0,1]\<close>), the colour classes of the score and of its badge are
  low for \<open>r \<le> 0.3\<close>, moderate for \<open>0.3 < r \<le> 0.6\<close> and high for \<open>r > 0.6\<close>, whatever level
  the result carries. The word in the badge is the \<^verbatim>\<open>risk_level\<close> the result carries, or
  \<^verbatim>\<open>Unknown\<close> when that is absent or empty, whatever the score.
\<close>

theorem C7_fraud_triangle_classes_and_label:
  "risk_score ft = Val r \<Longrightarrow>
   (r \<le> 0.3 \<longrightarrow>
      value_class (fraud_triangle_card ft) = ''risk-low''
      \<and> indicator_class (fraud_triangle_card ft) = ''bg-low'')
   \<and> (0.3 < r \<and> r \<le> 0.6 \<longrightarrow>
      value_class (fraud_triangle_card ft) = ''risk-moderate''
      \<and> indicator_class (fraud_triangle_card ft) = ''bg-moderate'')
   \<and> (0.6 < r \<longrightarrow>
      value_class (fraud_triangle_card ft) = ''risk-high''
      \<and> indicator_class (fraud_triangle_card ft) = ''bg-high'')
   \<and> value_class (fraud_triangle_card (ft\<lparr> fraud_triangle_result.risk_level := l \<rparr>))
       = value_class (fraud_triangle_card ft)
   \<and> indicator_class (fraud_triangle_card (ft\<lparr> fraud_triangle_result.risk_level := l \<rparr>))
       = indicator_class (fraud_triangle_card ft)
   \<and> (fraud_triangle_result.risk_level ft = Val w \<and> w \<noteq> [] \<longrightarrow>
        indicator_text (fraud_triangle_card ft) = w)
   \<and> (\<not> truthy_str (fraud_triangle_result.risk_level ft) \<longrightarrow>
        indicator_text (fraud_triangle_card ft) = ''Unknown'')
   \<and> indicator_text (fraud_triangle_card (ft\<lparr> risk_score := s \<rparr>))
       = indicator_text (fraud_triangle_card ft)"
proof -
  assume r: "risk_score ft = Val r"
  have classes:
    "(r \<le> 0.3 \<longrightarrow>
        value_class (fraud_triangle_card ft) = ''risk-low''
        \<and> indicator_class (fraud_triangle_card ft) = ''bg-low'')
     \<and> (0.3 < r \<and> r \<le> 0.6 \<longrightarrow>
        value_class (fraud_triangle_card ft) = ''risk-moderate''
        \<and> indicator_class (fraud_triangle_card ft) = ''bg-moderate'')
     \<and> (0.6 < r \<longrightarrow>
        value_class (fraud_triangle_card ft) = ''risk-high''
        \<and> indicator_class (fraud_triangle_card ft) = ''bg-high'')"
    using r by (simp add: fraud_triangle_card_def js_cmp_defs)
  have level_free:
    "value_class (fraud_triangle_card (ft\<lparr> fraud_triangle_result.risk_level := l \<rparr>))
       = value_class (fraud_triangle_card ft)
     \<and> indicator_class (fraud_triangle_card (ft\<lparr> fraud_triangle_result.risk_level := l \<rparr>))
       = indicator_class (fraud_triangle_card ft)"
    by (simp add: fraud_triangle_card_def)
  have word:
    "(fraud_triangle_result.risk_level ft = Val w \<and> w \<noteq> [] \<longrightarrow>
        indicator_text (fraud_triangle_card ft) = w)
     \<and> (\<not> truthy_str (fraud_triangle_result.risk_level ft) \<longrightarrow>
        indicator_text (fraud_triangle_card ft) = ''Unknown'')"
    by (cases "fraud_triangle_result.risk_level ft")
       (simp_all add: fraud_triangle_card_def str_or_def)
  have score_free:
    "indicator_text (fraud_triangle_card (ft\<lparr> risk_score := s \<rparr>))
       = indicator_text (fraud_triangle_card ft)"
    by (simp add: fraud_triangle_card_def)
  from classes level_free word score_free show ?thesis by blast
qed

theorem C7_witness:
  "value_class (fraud_triangle_card (fraud_triangle_of (Val 0.22) (Val ''LOW''))) = ''risk-low''
   \<and> value_class (fraud_triangle_card (fraud_triangle_of (Val 0.3) Undefined)) = ''risk-low''
   \<and> indicator_text (fraud_triangle_card (fraud_triangle_of (Val 0.3) Undefined)) = ''Unknown''
   \<and> value_class (fraud_triangle_card (fraud_triangle_of (Val 0.6) (Val ''HIGH''))) = ''risk-moderate''
   \<and> indicator_text (fraud_triangle_card (fraud_triangle_of (Val 0.6) (Val ''HIGH''))) = ''HIGH''
   \<and> value_class (fraud_triangle_card (fraud_triangle_of (Val 0.78) (Val ''HIGH''))) = ''risk-high''
   \<and> indicator_class (fraud_triangle_card (fraud_triangle_of (Val 0.78) (Val ''HIGH''))) = ''bg-high''"
proof -
  have s: "risk_score (fraud_triangle_of (Val x) l) = Val x"
          "fraud_triangle_result.risk_level (fraud_triangle_of (Val x) l) = l" for x l
    by (simp_all add: fraud_triangle_of_def)
  from C7_fraud_triangle_classes_and_label [OF s(1), of "0.22" "Val ''LOW''" _ "''LOW''"]
       C7_fraud_triangle_classes_and_label [OF s(1), of "0.3" Undefined]
       C7_fraud_triangle_classes_and_label [OF s(1), of "0.6" "Val ''HIGH''" _ "''HIGH''"]
       C7_fraud_triangle_classes_and_label [OF s(1), of "0.78" "Val ''HIGH''" _ "''HIGH''"]
  show ?thesis by (simp add: s)
qed

section \<open>Zero and absent scores\<close>




section \<open>The report generator has no hidden state\<close>

text \<open>
  C8. Two invocations of the report generator with the same identifier yield the same
  report, in particular the same composite score and level, whatever the globals, the
  clock and the random source are at each invocation: \<open>generateDemoData\<close> is given all of
  them as \<open>env\<close> and its result is the same for every \<open>env\<close>. So the report that the demo
  analysis leaves in \<^verbatim>\<open>currentData\<close> is the same when the analysis is run again in the state
  the first run left, at any later time.
\<close>

theorem C8_generateDemoData_ignores_ambient:
  "generateDemoData env1 ident = generateDemoData env2 ident
   \<and> opt_field (overall_risk (generateDemoData env1 ident)) score
       = opt_field (overall_risk (generateDemoData env2 ident)) score
   \<and> opt_field (overall_risk (generateDemoData env1 ident)) level
       = opt_field (overall_risk (generateDemoData env2 ident)) level
   \<and> currentData (analyzeCompany_demo ident env1) = Some (generateDemoData env1 ident)
   \<and> currentData (analyzeCompany_demo ident
         \<lparr> globals = analyzeCompany_demo ident env1, clock = t2, math_random = r2 \<rparr>)
       = currentData (analyzeCompany_demo ident env1)"
proof -
  have same: "generateDemoData e ident = generateDemoData e' ident" for e e'
    by (simp add: generateDemoData_def)
  have stored: "currentData (analyzeCompany_demo ident e) = Some (generateDemoData e ident)" for e
    by (simp add: analyzeCompany_demo_def addToHistory_def Let_def)
  have again: "currentData (analyzeCompany_demo ident
         \<lparr> globals = analyzeCompany_demo ident env1, clock = t2, math_random = r2 \<rparr>)
       = currentData (analyzeCompany_demo ident env1)"
    unfolding stored
    using same [of "\<lparr> globals = analyzeCompany_demo ident env1, clock = t2, math_random = r2 \<rparr>" env1]
    by simp
  from same [of env1 env2] stored [of env1] again show ?thesis by simp
qed

theorem C8_witness:
  "generateDemoData initial_ambient ''AAPL'' = generateDemoData other_ambient ''AAPL''
   \<and> currentData (analyzeCompany_demo ''AAPL'' initial_ambient)
       = Some (generateDemoData initial_ambient ''AAPL'')
   \<and> currentData (analyzeCompany_demo ''AAPL''
         \<lparr> globals = analyzeCompany_demo ''AAPL'' initial_ambient,
           clock = ''2026-06-30T12:00:00.000Z'', math_random = 0.5 \<rparr>)
       = currentData (analyzeCompany_demo ''AAPL'' initial_ambient)"
  using C8_generateDemoData_ignores_ambient
          [of initial_ambient "''AAPL''" other_ambient "''2026-06-30T12:00:00.000Z''" "0.5"]
  by blast

section \<open>The analysis history\<close>

text \<open>
  C9. In every state the client can reach, after a call to \<open>addToHistory\<close> the history holds
  at most 50 entries and the entry just added is first; when the history was full, the
  oldest (last) entry is dropped, otherwise the entries are kept.
\<close>

theorem C9_addToHistory_cap:
  "reachable s \<Longrightarrow>
     length (analysisHistory (addToHistory ident data now s)) \<le> 50
   \<and> analysisHistory (addToHistory ident data now s) \<noteq> []
   \<and> hd (analysisHistory (addToHistory ident data now s)) = history_entry_of ident data now
   \<and> analysisHistory (addToHistory ident data now s) =
       (if length (analysisHistory s) < 50
        then history_entry_of ident data now # analysisHistory s
        else history_entry_of ident data now # butlast (analysisHistory s))"
proof -
  assume r: "reachable s"
  then have b: "length (analysisHistory s) \<le> 50"
    using reachable_history_bounded by (simp add: history_bounded_def)
  have ne: "length (analysisHistory s) < 50 \<or> analysisHistory s \<noteq> []" by auto
  have e: "analysisHistory (addToHistory ident data now s) =
             (if length (analysisHistory s) < 50
              then history_entry_of ident data now # analysisHistory s
              else history_entry_of ident data now # butlast (analysisHistory s))"
    using ne by (auto simp: addToHistory_history)
  from b have l: "length (analysisHistory (addToHistory ident data now s)) \<le> 50"
    by (simp add: addToHistory_length)
  from e have h: "analysisHistory (addToHistory ident data now s) \<noteq> []
                  \<and> hd (analysisHistory (addToHistory ident data now s)) = history_entry_of ident data now"
    by simp
  from l h e show ?thesis by blast
qed

theorem C9_witness:
  "length (analysisHistory full_history_state) = 50
   \<and> length (analysisHistory (addToHistory ''ENRON'' (generateDemoData initial_ambient ''ENRON'')
        ''2001-12-03T00:00:00.000Z'' full_history_state)) = 50
   \<and> hd (analysisHistory (addToHistory ''ENRON'' (generateDemoData initial_ambient ''ENRON'')
        ''2001-12-03T00:00:00.000Z'' full_history_state))
      = history_entry_of ''ENRON'' (generateDemoData initial_ambient ''ENRON'') ''2001-12-03T00:00:00.000Z''
   \<and> analysisHistory (addToHistory ''ENRON'' (generateDemoData initial_ambient ''ENRON'')
        ''2001-12-03T00:00:00.000Z'' full_history_state)
      = history_entry_of ''ENRON'' (generateDemoData initial_ambient ''ENRON'') ''2001-12-03T00:00:00.000Z''
        # butlast (analysisHistory full_history_state)"
proof -
  have r: "reachable full_history_state"
    unfolding full_history_state_def by (rule reachable_funpow) (rule reachable.start)
  have l: "length (analysisHistory full_history_state) = 50"
    unfolding full_history_state_def
    by (subst funpow_history_length) (simp_all add: initial_state_def)
  from C9_addToHistory_cap [OF r, of "''ENRON''" "generateDemoData initial_ambient ''ENRON''"
      "''2001-12-03T00:00:00.000Z''"] l
  show ?thesis by simp
qed

section \<open>Properties of normalizeApiUrl\<close>

lemma strip_trailing_slashes_no_slash:
  "\<not> endsWith (strip_trailing_slashes url) ''/''"
proof (induction url rule: strip_trailing_slashes.induct)
  case (1 url)
  show ?case
  proof (cases "endsWith url ''/''")
    case True
    with 1 show ?thesis
      by (simp add: strip_trailing_slashes.simps [of url])
  next
    case False
    then show ?thesis
      by (simp add: strip_trailing_slashes.simps [of url])
  qed
qed

lemma endsWith_slash_iff:
  "endsWith s ''/'' \<longleftrightarrow> (s \<noteq> [] \<and> last s = CHR ''/'')"
proof (cases s rule: rev_cases)
  case Nil
  then show ?thesis by (simp add: endsWith_def)
next
  case (snoc ys y)
  then show ?thesis by (auto simp: endsWith_def)
qed

lemma empty_not_endsWith_slash: "\<not> endsWith [] ''/''"
  by (simp add: endsWith_def)

text \<open>
  C10. For every input, \<open>normalizeApiUrl\<close> returns a string that does not end with the
  character \<open>/\<close>, and it returns the empty string for \<open>null\<close>, \<open>undefined\<close> and the empty
  string.
\<close>

theorem C10_normalizeApiUrl_no_trailing_slash:
  "\<not> endsWith (normalizeApiUrl url) ''/''
   \<and> \<not> (normalizeApiUrl url \<noteq> [] \<and> last (normalizeApiUrl url) = CHR ''/'')
   \<and> normalizeApiUrl Null = []
   \<and> normalizeApiUrl Undefined = []
   \<and> normalizeApiUrl (Val []) = []"
proof -
  have a: "\<not> endsWith (normalizeApiUrl url) ''/''"
    by (cases url)
       (simp_all add: normalizeApiUrl_def strip_trailing_slashes_no_slash
          empty_not_endsWith_slash)
  from a have b: "\<not> (normalizeApiUrl url \<noteq> [] \<and> last (normalizeApiUrl url) = CHR ''/'')"
    by (simp add: endsWith_slash_iff)
  have c: "normalizeApiUrl Null = [] \<and> normalizeApiUrl Undefined = []
           \<and> normalizeApiUrl (Val []) = []"
    by (simp add: normalizeApiUrl_def)
  from a b c show ?thesis by blast
qed

theorem C10_normalizeApiUrl_witness:
  "normalizeApiUrl (Val '' http://localhost:8080/api/health// '') = ''http://localhost:8080/api/health''
   \<and> \<not> endsWith (normalizeApiUrl (Val '' http://localhost:8080/api/health// '')) ''/''"
proof -
  have s1: "strip_trailing_slashes ''http://localhost:8080/api/health//''
            = ''http://localhost:8080/api/health''"
    by (simp add: strip_trailing_slashes.simps endsWith_def slice_end_def)
  have "normalizeApiUrl (Val '' http://localhost:8080/api/health// '')
        = ''http://localhost:8080/api/health''"
    by (simp add: normalizeApiUrl_def trim_def isWhiteSpace_def suffixesToRemove_def
          remove_suffix_def endsWith_def slice_end_def s1)
  then show ?thesis
    using C10_normalizeApiUrl_no_trailing_slash
      [of "Val '' http://localhost:8080/api/health// ''"]
    by simp
qed

end
